theory Spec2Isabelle
  imports Complex_Main "HOL-Library.Multiset"
begin

section \<open>Shared error values\<close>

text \<open>
  Python exceptions that the modelled functions can raise. Every function that can
  raise returns \<open>py_error + 'a\<close>, with \<open>Inl\<close> for the exception.
\<close>

datatype py_error =
    ZeroDivisionError
  | IndexError
  | AttributeError
  | OtherError string

section \<open>Duplicate suppression: \<open>core/nms_processor.py\<close>\<close>

text \<open>
  A bounding box is the 4-tuple \<open>(xMin, yMin, xMax, yMax)\<close>. The detector yields Python
  floats; the model computes with exact reals, so rounding is outside the model.
\<close>

type_synonym bbox = "real \<times> real \<times> real \<times> real"

record detection =
  class_name :: string
  bbox :: bbox
  conf :: real

text \<open>
  \<open>NmsProcessor.computeIou\<close>. Python's \<open>/\<close> raises \<open>ZeroDivisionError\<close> on a zero
  divisor, which HOL's total division would hide, so the divisor is tested first.
\<close>

fun computeIou :: "bbox \<Rightarrow> bbox \<Rightarrow> py_error + real" where
  "computeIou (x1Min, y1Min, x1Max, y1Max) (x2Min, y2Min, x2Max, y2Max) =
     (let interXMin = max x1Min x2Min; interYMin = max y1Min y2Min;
          interXMax = min x1Max x2Max; interYMax = min y1Max y2Max
      in if interXMax < interXMin \<or> interYMax < interYMin then Inr 0
         else
           let interArea = (interXMax - interXMin) * (interYMax - interYMin);
               box1Area = (x1Max - x1Min) * (y1Max - y1Min);
               box2Area = (x2Max - x2Min) * (y2Max - y2Min)
           in if box1Area + box2Area - interArea = 0 then Inl ZeroDivisionError
              else Inr (interArea / (box1Area + box2Area - interArea)))"

text \<open>
  The list comprehension of \<open>removeDuplicates\<close>: keep \<open>d\<close> when its class differs from
  the class of \<open>best\<close> (then \<open>or\<close> does not evaluate the IoU) or when the IoU is at most
  the threshold. An exception of \<open>computeIou\<close> ends the comprehension.
\<close>

fun keepOthers :: "detection \<Rightarrow> real \<Rightarrow> detection list \<Rightarrow> py_error + detection list" where
  "keepOthers best iouThreshold [] = Inr []"
| "keepOthers best iouThreshold (d # ds) =
     (if class_name d \<noteq> class_name best
      then (case keepOthers best iouThreshold ds of
              Inl e \<Rightarrow> Inl e
            | Inr r \<Rightarrow> Inr (d # r))
      else (case computeIou (bbox d) (bbox best) of
              Inl e \<Rightarrow> Inl e
            | Inr v \<Rightarrow>
                (case keepOthers best iouThreshold ds of
                   Inl e \<Rightarrow> Inl e
                 | Inr r \<Rightarrow> Inr (if v \<le> iouThreshold then d # r else r))))"

text \<open>The \<open>while detections:\<close> loop; \<open>keep\<close> is the list built by \<open>keep.append\<close>.\<close>

function nmsLoop :: "detection list \<Rightarrow> real \<Rightarrow> detection list \<Rightarrow> py_error + detection list" where
  "nmsLoop [] iouThreshold keep = Inr keep"
| "nmsLoop (best # rest) iouThreshold keep =
     (case keepOthers best iouThreshold rest of
        Inl e \<Rightarrow> Inl e
      | Inr rest' \<Rightarrow> nmsLoop rest' iouThreshold (keep @ [best]))"
  by pat_completeness auto
termination
proof (relation "measure (\<lambda>(ds, t, k). length ds)")
  show "wf (measure (\<lambda>(ds, t, k). length ds))" by simp
next
  fix best :: detection and rest rest' :: "detection list" and iouThreshold :: real
    and keep :: "detection list"
  assume r: "keepOthers best iouThreshold rest = Inr rest'"
  have "\<And>r. keepOthers best iouThreshold rest = Inr r \<Longrightarrow> length r \<le> length rest"
    by (induction rest) (auto split: if_splits sum.splits)
  from this[OF r]
  show "((rest', iouThreshold, keep @ [best]), (best # rest, iouThreshold, keep))
          \<in> measure (\<lambda>(ds, t, k). length ds)"
    by simp
qed

text \<open>
  \<open>detections.sort(key=lambda x: x['conf'], reverse=True)\<close> is a stable sort into
  descending confidence: equal confidences keep their input order.
\<close>

definition sortByConfDesc :: "detection list \<Rightarrow> detection list" where
  "sortByConfDesc ds = sort_key (\<lambda>d. - conf d) ds"

definition removeDuplicates :: "detection list \<Rightarrow> real \<Rightarrow> py_error + detection list" where
  "removeDuplicates detections iouThreshold =
     (if detections = [] then Inr []
      else nmsLoop (sortByConfDesc detections) iouThreshold [])"

text \<open>
  The predicates of the suppression claims. \<open>iouWithin t a b\<close>: if \<open>a\<close> and \<open>b\<close> have the
  same class label, their IoU is defined and at most \<open>t\<close>. \<open>nonOverlapping t ds\<close>: this
  holds for every two detections at different places of the list.
\<close>

definition iouWithin :: "real \<Rightarrow> detection \<Rightarrow> detection \<Rightarrow> bool" where
  "iouWithin t a b =
     (class_name a = class_name b \<longrightarrow>
        (case computeIou (bbox a) (bbox b) of Inl e \<Rightarrow> False | Inr v \<Rightarrow> v \<le> t))"

fun nonOverlapping :: "real \<Rightarrow> detection list \<Rightarrow> bool" where
  "nonOverlapping t [] = True"
| "nonOverlapping t (d # ds) = (list_all (iouWithin t d) ds \<and> nonOverlapping t ds)"

definition inverted :: "bbox \<Rightarrow> bool" where
  "inverted b = (case b of (xMin, yMin, xMax, yMax) \<Rightarrow> xMax < xMin \<or> yMax < yMin)"

definition boxArea :: "bbox \<Rightarrow> real" where
  "boxArea b = (case b of (xMin, yMin, xMax, yMax) \<Rightarrow> (xMax - xMin) * (yMax - yMin))"

text \<open>The detections of the example of section 8 of the specification, and a third one.\<close>

definition exA :: detection where
  "exA = \<lparr>class_name = ''text'', bbox = (0, 0, 10, 10), conf = 9/10\<rparr>"

definition exB :: detection where
  "exB = \<lparr>class_name = ''text'', bbox = (1, 1, 9, 9), conf = 8/10\<rparr>"

definition exC :: detection where
  "exC = \<lparr>class_name = ''text'', bbox = (20, 20, 30, 30), conf = 95/100\<rparr>"

section \<open>Python strings\<close>

text \<open>
  A Python \<open>str\<close> is a sequence of Unicode code points, modelled as a list of naturals;
  \<open>ascii\<close> turns a literal into one. \<open>py_isspace\<close> is the set of code points that
  \<open>str.isspace\<close> accepts, which is what \<open>str.strip()\<close> without argument removes.
\<close>

type_synonym pystr = "nat list"

definition ascii :: "string \<Rightarrow> pystr" where
  "ascii s = map of_char s"

definition py_isspace :: "nat \<Rightarrow> bool" where
  "py_isspace c =
     ((9 \<le> c \<and> c \<le> 13) \<or> (28 \<le> c \<and> c \<le> 32) \<or> c = 133 \<or> c = 160 \<or> c = 5760
      \<or> (8192 \<le> c \<and> c \<le> 8202) \<or> c = 8232 \<or> c = 8233 \<or> c = 8239 \<or> c = 8287
      \<or> c = 12288)"

definition strip :: "pystr \<Rightarrow> pystr" where
  "strip s = rev (dropWhile py_isspace (rev (dropWhile py_isspace s)))"

text \<open>\<open>sep.join(xs)\<close>.\<close>

fun join :: "pystr \<Rightarrow> pystr list \<Rightarrow> pystr" where
  "join sep [] = []"
| "join sep [x] = x"
| "join sep (x # y # ys) = x @ sep @ join sep (y # ys)"

section \<open>Table normalisation: \<open>handlers/table_handler.py\<close>\<close>

text \<open>
  The rows come from the tabular parser or from parsed JSON, so a cell is a string or
  something else (\<open>None\<close>, a number), and a row is a list or something else; the two
  \<open>isinstance\<close> tests of \<open>_normalizeData\<close> tell them apart.
\<close>

datatype cell = CStr pystr | CNotStr

datatype row = RList "cell list" | RNotList

text \<open>\<open>cell.strip() if isinstance(cell, str) else ""\<close>\<close>

fun cleanCell :: "cell \<Rightarrow> pystr" where
  "cleanCell (CStr s) = strip s"
| "cleanCell CNotStr = []"

text \<open>The inner loop: \<open>vals\<close> stays empty when the row is not a list.\<close>

fun cleanRow :: "row \<Rightarrow> pystr list" where
  "cleanRow (RList cells) = map cleanCell cells"
| "cleanRow RNotList = []"

text \<open>
  The first loop of \<open>_normalizeData\<close>, with its two variables \<open>maxCols\<close> and
  \<open>cleaned\<close>.
\<close>

fun cleanLoop :: "row list \<Rightarrow> nat \<Rightarrow> pystr list list \<Rightarrow> nat \<times> pystr list list" where
  "cleanLoop [] maxCols cleaned = (maxCols, cleaned)"
| "cleanLoop (r # rs) maxCols cleaned =
     (let vals = cleanRow r
      in cleanLoop rs (if length vals > maxCols then length vals else maxCols)
           (cleaned @ [vals]))"

text \<open>The second loop: \<open>row + [""] * (maxCols - len(row))\<close>.\<close>

definition padRow :: "nat \<Rightarrow> pystr list \<Rightarrow> pystr list" where
  "padRow maxCols r = r @ replicate (maxCols - length r) []"

definition normalizeData :: "row list \<Rightarrow> pystr list list" where
  "normalizeData data =
     (if data = [] then []
      else case cleanLoop data 0 [] of
             (maxCols, cleaned) \<Rightarrow>
               if maxCols = 0 then cleaned else map (padRow maxCols) cleaned)"

text \<open>\<open>_toMarkdown\<close>\<close>

definition mdLine :: "pystr list \<Rightarrow> pystr" where
  "mdLine cells = ascii ''| '' @ join (ascii '' | '') cells @ ascii '' |''"

definition toMarkdown :: "pystr list list \<Rightarrow> pystr" where
  "toMarkdown data =
     (case data of
        [] \<Rightarrow> []
      | headerRow # rest \<Rightarrow>
          join [10]
            (mdLine headerRow
             # mdLine (replicate (length headerRow) (ascii ''---''))
             # map (\<lambda>r. mdLine (r @ replicate (length headerRow - length r) [])) rest))"

text \<open>
  The dictionary built by \<open>_buildResult\<close>. \<open>max((len(r) for r in normalized), default=0)\<close>
  is the running maximum from 0.
\<close>

record table_result =
  t_type :: string
  t_rows :: nat
  t_columns :: nat
  t_data :: "pystr list list"
  t_markdown :: pystr
  t_source :: string

definition buildResult :: "row list \<Rightarrow> string \<Rightarrow> table_result" where
  "buildResult data source =
     (let normalized = normalizeData data
      in \<lparr>t_type = ''table'',
          t_rows = length normalized,
          t_columns = fold max (map length normalized) 0,
          t_data = normalized,
          t_markdown = toMarkdown normalized,
          t_source = source\<rparr>)"

text \<open>
  For the table claim: the length of a row as \<open>_normalizeData\<close> counts it (a row that
  is not a list counts as empty), and the widest row of the input.
\<close>

fun rowLen :: "row \<Rightarrow> nat" where
  "rowLen (RList cells) = length cells"
| "rowLen RNotList = 0"

definition maxRowLen :: "row list \<Rightarrow> nat" where
  "maxRowLen data = Max (insert 0 (set (map rowLen data)))"

text \<open>The rows of the example of section 8 of the specification, with one-letter cells.\<close>

definition exRows :: "row list" where
  "exRows = [RList [CStr (ascii ''a''), CStr (ascii ''b''), CStr (ascii ''c'')],
             RList [CStr (ascii ''d'')]]"

section \<open>Formula extraction: \<open>handlers/formula_handler.py\<close>\<close>

subsection \<open>Values of the collaborators\<close>

text \<open>
  What \<open>json.loads\<close> yields. A dictionary is the list of its items; \<open>dict.get\<close> is
  \<open>dictGet\<close>, with \<open>None\<close> for an absent key. \<open>truthy\<close> is Python's truth value.
\<close>

datatype json =
    JNull
  | JBool bool
  | JNum real
  | JStr pystr
  | JList "json list"
  | JDict "(pystr \<times> json) list"

fun truthy :: "json \<Rightarrow> bool" where
  "truthy JNull = False"
| "truthy (JBool b) = b"
| "truthy (JNum x) = (x \<noteq> 0)"
| "truthy (JStr s) = (s \<noteq> [])"
| "truthy (JList xs) = (xs \<noteq> [])"
| "truthy (JDict kvs) = (kvs \<noteq> [])"

definition dictGet :: "(pystr \<times> json) list \<Rightarrow> pystr \<Rightarrow> json" where
  "dictGet kvs k = (case map_of kvs k of None \<Rightarrow> JNull | Some v \<Rightarrow> v)"

text \<open>The truth value of an \<open>Optional[str]\<close>.\<close>

fun optTruthy :: "pystr option \<Rightarrow> bool" where
  "optTruthy None = False"
| "optTruthy (Some s) = (s \<noteq> [])"

text \<open>
  The AI client is not part of the sources; it is a parameter. A call of \<open>llm.chat\<close>
  followed by \<open>json.loads\<close> of the response ends in one of three ways: the call (or, for
  the text prompt, the formatting of the prompt) raises, the response is not JSON, or it
  parses. \<open>chat_text\<close> answers the text prompt of \<open>_extractFormulaFromText\<close> for a given
  text, \<open>chat_image\<close> the image prompt of \<open>_extractFormula\<close> for given image bytes.
  \<open>self.llm\<close> is an \<open>llm_client option\<close>: \<open>None\<close> when no client was configured.
\<close>

datatype llm_reply = ChatRaises | NotJson | Json json

record llm_client =
  chat_text :: "pystr \<Rightarrow> llm_reply"
  chat_image :: "nat list \<Rightarrow> llm_reply"

text \<open>
  What the handlers read of a slide shape: the XML of its element (\<open>None\<close> when the
  shape has no \<open>element\<close> or reading it raises), \<open>has_text_frame\<close> (false when absent),
  its text (\<open>None\<close> when absent), the bytes of its image (\<open>None\<close> when \<open>shape.image\<close>
  raises, as it does for a shape that is no picture), and its position.
\<close>

record shape =
  sh_xml :: "pystr option"
  has_text_frame :: bool
  sh_text :: "pystr option"
  sh_image :: "nat list option"
  sh_top :: int
  sh_left :: int

subsection \<open>Helpers of the handler\<close>

text \<open>\<open>k in s\<close> for strings.\<close>

fun isSubstr :: "pystr \<Rightarrow> pystr \<Rightarrow> bool" where
  "isSubstr k [] = (k = [])"
| "isSubstr k (c # s) = (take (length k) (c # s) = k \<or> isSubstr k s)"

definition extractOmml :: "shape \<Rightarrow> pystr option" where
  "extractOmml sh =
     (case sh_xml sh of
        None \<Rightarrow> None
      | Some x \<Rightarrow> if isSubstr (ascii ''m:oMath'') x then Some x else None)"

text \<open>The two functions below are stubs in the sources: they return \<open>None\<close>.\<close>

definition extractOmmlFromSlide :: "pystr \<Rightarrow> int \<Rightarrow> pystr option" where
  "extractOmmlFromSlide filePath slideNum = None"

definition ommlToLatex :: "pystr \<Rightarrow> pystr option \<times> pystr option" where
  "ommlToLatex omml = (None, None)"

definition normalizeTextEquation :: "pystr \<Rightarrow> pystr" where
  "normalizeTextEquation t = strip t"

text \<open>\<open>s.replace(k, v)\<close> for a one-character \<open>k\<close>.\<close>

definition replaceChar :: "nat \<Rightarrow> pystr \<Rightarrow> pystr \<Rightarrow> pystr" where
  "replaceChar k v s = concat (map (\<lambda>c. if c = k then v else [c]) s)"

text \<open>
  The tuple \<open>strong\<close> and the dictionary \<open>repl\<close> of \<open>simpleTextToLatex\<close>, as code points,
  in the order of the source; 92 is the backslash.
\<close>

definition strong :: "nat list" where
  "strong = [61, 8804, 8805, 8776, 8800, 94, 8730, 8721, 8747, 47]"

definition repl :: "(nat \<times> pystr) list" where
  "repl =
     [(8722, ascii ''-''), (8211, ascii ''-''), (215, ascii ''*''),
      (183, 92 # ascii ''cdot ''), (247, ascii ''/''),
      (8804, 92 # ascii ''leq ''), (8805, 92 # ascii ''geq ''),
      (8800, 92 # ascii ''neq ''), (8776, 92 # ascii ''approx ''),
      (8594, 92 # ascii ''to ''), (8592, 92 # ascii ''leftarrow ''),
      (8734, 92 # ascii ''infty '')]"

definition simpleTextToLatex :: "pystr \<Rightarrow> pystr option" where
  "simpleTextToLatex t =
     (if t = [] then None
      else if \<not> list_ex (\<lambda>c. c \<in> set t) strong then None
      else Some (strip (fold (\<lambda>(k, v) s. replaceChar k v s) repl t)))"

text \<open>
  Of the dictionaries returned by \<open>_extractFormulaFromText\<close> and \<open>_extractFormula\<close> the
  two public handlers read the keys \<open>latex\<close> and \<open>confidence\<close> only; the model returns
  this pair.
\<close>

record guess =
  g_latex :: json
  g_confidence :: real

text \<open>The heuristic of \<open>_extractFormulaFromText\<close>, the same in its two places.\<close>

definition heuristicGuess :: "pystr \<Rightarrow> guess" where
  "heuristicGuess t =
     (case simpleTextToLatex t of
        None \<Rightarrow> \<lparr>g_latex = JNull, g_confidence = 0\<rparr>
      | Some l \<Rightarrow> \<lparr>g_latex = JStr l, g_confidence = (if l \<noteq> [] then 6/10 else 0)\<rparr>)"

text \<open>
  \<open>_extractFormulaFromText\<close>. A parsed value that is no dictionary has no \<open>get\<close>: the
  \<open>AttributeError\<close> is caught by the outer \<open>except\<close>.
\<close>

definition extractFormulaFromText :: "llm_client \<Rightarrow> pystr \<Rightarrow> guess" where
  "extractFormulaFromText llm t =
     (case chat_text llm t of
        ChatRaises \<Rightarrow> heuristicGuess t
      | NotJson \<Rightarrow> heuristicGuess t
      | Json parsed \<Rightarrow>
          (case parsed of
             JDict kvs \<Rightarrow>
               (let latex = dictGet kvs (ascii ''latex'')
                in if truthy latex then \<lparr>g_latex = latex, g_confidence = 9/10\<rparr>
                   else heuristicGuess t)
           | _ \<Rightarrow> heuristicGuess t))"

text \<open>
  \<open>_extractFormula\<close>. \<open>latex.strip()\<close> raises for a true value that is no string, and
  the outer \<open>except\<close> then returns no LaTeX.
\<close>

definition extractFormula :: "llm_client \<Rightarrow> nat list \<Rightarrow> guess" where
  "extractFormula llm imageBytes =
     (case chat_image llm imageBytes of
        ChatRaises \<Rightarrow> \<lparr>g_latex = JNull, g_confidence = 0\<rparr>
      | NotJson \<Rightarrow> \<lparr>g_latex = JNull, g_confidence = 0\<rparr>
      | Json parsed \<Rightarrow>
          (case parsed of
             JDict kvs \<Rightarrow>
               (let latex = dictGet kvs (ascii ''latex'')
                in if truthy latex
                   then (case latex of
                           JStr s \<Rightarrow>
                             \<lparr>g_latex = latex,
                              g_confidence = (if strip s \<noteq> [] then 95/100 else 0)\<rparr>
                         | _ \<Rightarrow> \<lparr>g_latex = JNull, g_confidence = 0\<rparr>)
                   else \<lparr>g_latex = latex, g_confidence = 0\<rparr>)
           | _ \<Rightarrow> \<lparr>g_latex = JNull, g_confidence = 0\<rparr>))"

subsection \<open>The two handlers\<close>

text \<open>
  The dictionary a handler returns. A key that the dictionary lacks and a key with value
  \<open>None\<close> are both \<open>None\<close> (\<open>JNull\<close> for \<open>latex\<close>).
\<close>

record formula_result =
  f_type :: "string option"
  latex :: json
  mathml :: "pystr option"
  omml :: "pystr option"
  source :: string
  confidence :: real
  error :: "string option"

definition ommlResult :: "string \<Rightarrow> pystr \<Rightarrow> pystr option \<Rightarrow> pystr option \<Rightarrow> formula_result" where
  "ommlResult src om l m =
     \<lparr>f_type = Some ''formula'',
      latex = (case l of None \<Rightarrow> JNull | Some s \<Rightarrow> JStr s),
      mathml = m, omml = Some om, source = src,
      confidence = (if optTruthy l then 1 else 8/10), error = None\<rparr>"

text \<open>Layer 1: the markup of the shape itself.\<close>

definition layer1 :: "pystr option \<Rightarrow> formula_result option" where
  "layer1 om =
     (case om of
        None \<Rightarrow> None
      | Some x \<Rightarrow>
          if x = [] then None
          else (case ommlToLatex x of
                  (l, m) \<Rightarrow>
                    if optTruthy l \<or> optTruthy m then Some (ommlResult ''omml'' x l m)
                    else None))"

text \<open>Layer 2a: the markup of the whole slide, when file and slide are known.\<close>

definition layer2a :: "pystr option \<Rightarrow> pystr \<Rightarrow> int \<Rightarrow> formula_result option" where
  "layer2a om filePath slideNum =
     (if \<not> optTruthy om \<and> filePath \<noteq> [] \<and> slideNum \<noteq> 0
      then (case extractOmmlFromSlide filePath slideNum of
              None \<Rightarrow> None
            | Some x \<Rightarrow>
                if x = [] then None
                else (case ommlToLatex x of
                        (l, m) \<Rightarrow>
                          if optTruthy l \<or> optTruthy m
                          then Some (ommlResult ''omml_slide'' x l m)
                          else None))
      else None)"

text \<open>
  Layer 2b: LaTeX from the text of the shape. With \<open>verbose\<close> the handler prints
  \<open>textRes.get('latex', '')[:80]\<close>; the slice raises for a value that is neither a string
  nor a list, and the \<open>except\<close> of the layer then gives the layer up.
\<close>

fun sliceable :: "json \<Rightarrow> bool" where
  "sliceable (JStr s) = True"
| "sliceable (JList xs) = True"
| "sliceable j = False"

definition rawTextOf :: "shape \<Rightarrow> pystr" where
  "rawTextOf sh =
     normalizeTextEquation (strip (case sh_text sh of None \<Rightarrow> [] | Some t \<Rightarrow> t))"

definition layer2b :: "llm_client option \<Rightarrow> bool \<Rightarrow> shape \<Rightarrow> formula_result option" where
  "layer2b llm verbose sh =
     (case llm of
        None \<Rightarrow> None
      | Some c \<Rightarrow>
          if has_text_frame sh
          then (let rawText = rawTextOf sh
                in if rawText \<noteq> []
                   then (let textRes = extractFormulaFromText c rawText
                         in if truthy (g_latex textRes)
                            then (if verbose \<and> \<not> sliceable (g_latex textRes) then None
                                  else Some \<lparr>f_type = Some ''formula'',
                                             latex = g_latex textRes,
                                             mathml = None, omml = None,
                                             source = ''text_llm'',
                                             confidence = g_confidence textRes,
                                             error = None\<rparr>)
                            else None)
                   else None)
          else None)"

text \<open>The record of the image layer, shared by \<open>handlePptx\<close> and \<open>handlePdf\<close>.\<close>

definition ocrResult :: "guess \<Rightarrow> formula_result" where
  "ocrResult res =
     \<lparr>f_type = Some ''formula'', latex = g_latex res, mathml = None, omml = None,
      source = ''ocr'', confidence = g_confidence res,
      error = (if truthy (g_latex res) then None else Some ''no_latex'')\<rparr>"

text \<open>Layer 2c: the image of the shape, read by the AI client.\<close>

definition layer2c :: "llm_client option \<Rightarrow> shape \<Rightarrow> formula_result option" where
  "layer2c llm sh =
     (case llm of
        None \<Rightarrow> None
      | Some c \<Rightarrow>
          (case sh_image sh of
             None \<Rightarrow> None
           | Some imageBytes \<Rightarrow> Some (ocrResult (extractFormula c imageBytes))))"

definition failedResult :: formula_result where
  "failedResult =
     \<lparr>f_type = None, latex = JNull, mathml = None, omml = None, source = ''failed'',
      confidence = 0, error = Some ''No extraction method succeeded''\<rparr>"

definition handlePptx ::
  "llm_client option \<Rightarrow> bool \<Rightarrow> shape \<Rightarrow> int \<Rightarrow> pystr \<Rightarrow> formula_result" where
  "handlePptx llm verbose sh slideNum filePath =
     (let om = extractOmml sh
      in case layer1 om of
           Some r \<Rightarrow> r
         | None \<Rightarrow>
             (case layer2a om filePath slideNum of
                Some r \<Rightarrow> r
              | None \<Rightarrow>
                  (case layer2b llm verbose sh of
                     Some r \<Rightarrow> r
                   | None \<Rightarrow>
                       (case layer2c llm sh of
                          Some r \<Rightarrow> r
                        | None \<Rightarrow> failedResult))))"

text \<open>\<open>str(e)\<close> of an exception.\<close>

fun errStr :: "py_error \<Rightarrow> string" where
  "errStr ZeroDivisionError = ''division by zero''"
| "errStr IndexError = ''index out of range''"
| "errStr AttributeError = ''attribute error''"
| "errStr (OtherError msg) = msg"

text \<open>
  \<open>handlePdf\<close>. \<open>render\<close> is the outcome of the first four statements of the \<open>try\<close>
  (unpacking the box and rendering the region): the bytes of the image or an exception.
\<close>

definition handlePdf ::
  "llm_client option \<Rightarrow> py_error + nat list \<Rightarrow> formula_result" where
  "handlePdf llm render =
     (case render of
        Inl e \<Rightarrow>
          \<lparr>f_type = None, latex = JNull, mathml = None, omml = None,
           source = ''pdf_error'', confidence = 0, error = Some (errStr e)\<rparr>
      | Inr imgBytes \<Rightarrow>
          (case llm of
             None \<Rightarrow>
               \<lparr>f_type = None, latex = JNull, mathml = None, omml = None,
                source = ''ocr_no_llm'', confidence = 0, error = None\<rparr>
           | Some c \<Rightarrow> ocrResult (extractFormula c imgBytes)))"

text \<open>
  For the formula claims. \<open>noResult r\<close>: the record carries neither a non-empty LaTeX
  nor a non-empty MathML. \<open>aiLatex c t\<close>: the LaTeX that the reply of the client to the
  text prompt supplies, if it supplies one.
\<close>

definition noResult :: "formula_result \<Rightarrow> bool" where
  "noResult r = (\<not> truthy (latex r) \<and> \<not> optTruthy (mathml r))"

definition aiLatex :: "llm_client \<Rightarrow> pystr \<Rightarrow> json option" where
  "aiLatex c t =
     (case chat_text c t of
        Json (JDict kvs) \<Rightarrow>
          if truthy (dictGet kvs (ascii ''latex'')) then Some (dictGet kvs (ascii ''latex''))
          else None
      | _ \<Rightarrow> None)"

text \<open>Clients and shapes for the examples.\<close>

definition silentClient :: llm_client where
  "silentClient = \<lparr>chat_text = (\<lambda>t. NotJson), chat_image = (\<lambda>b. Json (JDict []))\<rparr>"

definition goodClient :: llm_client where
  "goodClient =
     \<lparr>chat_text = (\<lambda>t. Json (JDict [(ascii ''latex'', JStr (ascii ''x=5''))])),
      chat_image = (\<lambda>b. Json (JDict []))\<rparr>"

definition textShape :: shape where
  "textShape =
     \<lparr>sh_xml = None, has_text_frame = True, sh_text = Some (ascii ''x = 5''),
      sh_image = None, sh_top = 0, sh_left = 0\<rparr>"

definition pictureShape :: shape where
  "pictureShape =
     \<lparr>sh_xml = None, has_text_frame = False, sh_text = None,
      sh_image = Some [137, 80, 78, 71], sh_top = 0, sh_left = 0\<rparr>"

section \<open>Content cache: \<open>ImageCache\<close> of \<open>handlers/image_handler.py\<close>\<close>

text \<open>
  The cache is a dictionary from hash to description, held in memory and written to one
  JSON file. The file is absent, holds a JSON object, or holds something \<open>json.load\<close>
  rejects. For a dictionary of strings \<open>json.dump\<close> followed by \<open>json.load\<close> gives the
  dictionary back, so the model stores the dictionary itself.
\<close>

type_synonym cache_dict = "pystr \<rightharpoonup> pystr"

datatype file_state = NoFile | JsonFile cache_dict | Corrupt

text \<open>
  Opening and writing the file can raise, and \<open>_saveCache\<close> and \<open>_loadCache\<close> catch
  every exception, so the outcome of each file operation is an input of the model. A
  write succeeds, fails at \<open>open\<close> (the file is left as it was), or fails in
  \<open>json.dump\<close> after \<open>open\<close> has truncated the file.
\<close>

datatype write_outcome = WriteOk | OpenFails | DumpFails

datatype read_outcome = ReadOk | ReadFails

definition loadCache :: "read_outcome \<Rightarrow> file_state \<Rightarrow> cache_dict" where
  "loadCache rd f =
     (case f of
        NoFile \<Rightarrow> Map.empty
      | JsonFile m \<Rightarrow> (case rd of ReadOk \<Rightarrow> m | ReadFails \<Rightarrow> Map.empty)
      | Corrupt \<Rightarrow> Map.empty)"

definition saveCache :: "write_outcome \<Rightarrow> cache_dict \<Rightarrow> file_state \<Rightarrow> file_state" where
  "saveCache wr c f =
     (case wr of
        WriteOk \<Rightarrow> JsonFile c
      | OpenFails \<Rightarrow> f
      | DumpFails \<Rightarrow> Corrupt)"

text \<open>An \<open>ImageCache\<close> object together with the file it writes.\<close>

record image_cache =
  cache :: cache_dict
  cacheFile :: file_state

text \<open>\<open>ImageCache.__init__\<close> on the file \<open>f\<close>.\<close>

definition newImageCache :: "read_outcome \<Rightarrow> file_state \<Rightarrow> image_cache" where
  "newImageCache rd f = \<lparr>cache = loadCache rd f, cacheFile = f\<rparr>"

definition cacheGet :: "image_cache \<Rightarrow> pystr \<Rightarrow> pystr option" where
  "cacheGet s imageHash = cache s imageHash"

definition cacheSet :: "write_outcome \<Rightarrow> pystr \<Rightarrow> pystr \<Rightarrow> image_cache \<Rightarrow> image_cache" where
  "cacheSet wr imageHash description s =
     (let c = (cache s)(imageHash \<mapsto> description)
      in \<lparr>cache = c, cacheFile = saveCache wr c (cacheFile s)\<rparr>)"

text \<open>
  For the round-trip claim: a sequence of calls of \<open>set\<close>, each with the outcome of its
  write, and the value that the last call for a hash has set.
\<close>

fun setAll :: "(write_outcome \<times> pystr \<times> pystr) list \<Rightarrow> image_cache \<Rightarrow> image_cache" where
  "setAll [] s = s"
| "setAll ((wr, h, v) # ops) s = setAll ops (cacheSet wr h v s)"

fun lastSet :: "(write_outcome \<times> pystr \<times> pystr) list \<Rightarrow> pystr \<Rightarrow> pystr option" where
  "lastSet [] k = None"
| "lastSet ((wr, h, v) # ops) k =
     (case lastSet ops k of
        Some v' \<Rightarrow> Some v'
      | None \<Rightarrow> if h = k then Some v else None)"

text \<open>A cache on no file, and two calls of \<open>set\<close> of which only the second is written.\<close>

definition emptyCache :: image_cache where
  "emptyCache = newImageCache ReadOk NoFile"

definition exOps :: "(write_outcome \<times> pystr \<times> pystr) list" where
  "exOps = [(OpenFails, [97], [120]), (WriteOk, [98], [121])]"

section \<open>The extraction dispatcher: \<open>extractor/content_extractor.py\<close>\<close>

subsection \<open>Handlers, contents, futures\<close>

text \<open>The five handler objects of \<open>ContentExtractor\<close> and the \<open>handlerMap\<close> of \<open>_getHandler\<close>.\<close>

datatype handler = TextHandler | ImageHandler | TableHandler | FormulaHandler | DefaultHandler

definition getHandler :: "string \<Rightarrow> handler" where
  "getHandler elemType =
     (if elemType = ''text'' \<or> elemType = ''plain text'' \<or> elemType = ''title'' then TextHandler
      else if elemType = ''image'' \<or> elemType = ''figure'' then ImageHandler
      else if elemType = ''table'' then TableHandler
      else if elemType = ''equation'' \<or> elemType = ''isolate_formula'' then FormulaHandler
      else DefaultHandler)"

text \<open>What a handler or a future yields: a string or a dictionary.\<close>

datatype content = ContentStr pystr | ContentDict "(pystr \<times> json) list"

text \<open>
  \<open>handler.handle()\<close>, called when \<open>handlePptx\<close> or \<open>handlePdf\<close> raised
  \<open>AttributeError\<close>: only \<open>DefaultHandler\<close> has the method.
\<close>

fun handle :: "handler \<Rightarrow> py_error + content" where
  "handle DefaultHandler = Inr (ContentStr (ascii ''<UNHANDLED_ELEMENT>''))"
| "handle h = Inl AttributeError"

text \<open>
  The documents and the handlers' work on them are outside the dispatcher and are its
  parameters: \<open>slideAt i\<close> is \<open>prs.slides[i].shapes\<close> and \<open>pageAt i\<close> the width and
  height of \<open>doc[i].rect\<close>, or the exception of the lookup; \<open>handlePptxOf\<close> and
  \<open>handlePdfOf\<close> are the synchronous calls of a handler.

  A future is the number it was submitted under, counted from 0 over the whole call.
  \<open>handlePptxAsync\<close> and \<open>handlePdfAsync\<close> catch every exception and always return a
  future, so every submission yields one. \<open>future_outcome k\<close> is what future \<open>k\<close>
  resolves with, a result or an exception.
\<close>

record env =
  slideAt :: "int \<Rightarrow> py_error + shape list"
  pageAt :: "int \<Rightarrow> py_error + real \<times> real"
  handlePptxOf :: "handler \<Rightarrow> shape \<Rightarrow> pystr \<Rightarrow> int \<Rightarrow> py_error + content"
  handlePdfOf :: "handler \<Rightarrow> int \<Rightarrow> bbox \<Rightarrow> real \<Rightarrow> py_error + content"
  future_outcome :: "nat \<Rightarrow> py_error + content"

text \<open>
  The futures complete in some order, the list \<open>order\<close>. \<open>future.result()\<close> blocks
  until the future has completed: for a future that never completes it does not return,
  which is the value \<open>None\<close>.
\<close>

definition futureResult :: "env \<Rightarrow> nat list \<Rightarrow> nat \<Rightarrow> (py_error + content) option" where
  "futureResult e order k = (if k \<in> set order then Some (future_outcome e k) else None)"

subsection \<open>The three passes\<close>

text \<open>
  The dictionary \<open>elemData\<close>: the type, the content, the handler, and in \<open>e_info\<close> the
  other keys, which differ between the two formats.
\<close>

record 'a elem_data =
  e_type :: string
  e_info :: 'a
  e_content :: "content option"
  e_handler :: handler

text \<open>
  The inner loop of the first pass, over the elements of one page or slide. An element
  is \<open>None\<close> when the loop skips it with \<open>continue\<close>. \<open>base\<close> is the length of the list
  of the page before the element is appended, so the index recorded with a future,
  \<open>len(slideElements) - 1\<close> after the append, is \<open>base\<close>. \<open>fid\<close> numbers the next future.
\<close>

fun firstPassElems ::
  "(string \<Rightarrow> bool) \<Rightarrow> int \<Rightarrow> nat \<Rightarrow> nat \<Rightarrow> 'a elem_data option list
     \<Rightarrow> 'a elem_data list \<times> (int \<times> nat \<times> nat) list \<times> nat" where
  "firstPassElems isAsync num base fid [] = ([], [], fid)"
| "firstPassElems isAsync num base fid (None # xs) = firstPassElems isAsync num base fid xs"
| "firstPassElems isAsync num base fid (Some ed # xs) =
     (if isAsync (e_type ed)
      then (case firstPassElems isAsync num (Suc base) (Suc fid) xs of
              (es, fs, n) \<Rightarrow> (ed # es, (num, base, fid) # fs, n))
      else (case firstPassElems isAsync num (Suc base) fid xs of
              (es, fs, n) \<Rightarrow> (ed # es, fs, n)))"

text \<open>
  The outer loop of the first pass. A page is the exception of its lookup, or its
  number with its elements. The result is \<open>elementsMetadata\<close>, \<open>imageFutures\<close> and the
  number of futures submitted.
\<close>

fun firstPass ::
  "(string \<Rightarrow> bool) \<Rightarrow> nat \<Rightarrow> (py_error + int \<times> 'a elem_data option list) list
     \<Rightarrow> py_error + (int \<times> 'a elem_data list) list \<times> (int \<times> nat \<times> nat) list \<times> nat" where
  "firstPass isAsync fid [] = Inr ([], [], fid)"
| "firstPass isAsync fid (Inl e # ps) = Inl e"
| "firstPass isAsync fid (Inr (num, xs) # ps) =
     (case firstPassElems isAsync num 0 fid xs of
        (es, fs, fid') \<Rightarrow>
          (case firstPass isAsync fid' ps of
             Inl e \<Rightarrow> Inl e
           | Inr (meta, futs, n) \<Rightarrow> Inr ((num, es) # meta, fs @ futs, n)))"

text \<open>
  The second pass: every element that was not submitted is handled now, and an
  exception of a handler ends the extraction.
\<close>

fun secondPassElems ::
  "(string \<Rightarrow> bool) \<Rightarrow> ('a elem_data \<Rightarrow> py_error + content) \<Rightarrow> 'a elem_data list
     \<Rightarrow> py_error + 'a elem_data list" where
  "secondPassElems isAsync call [] = Inr []"
| "secondPassElems isAsync call (ed # es) =
     (if isAsync (e_type ed)
      then (case secondPassElems isAsync call es of
              Inl e \<Rightarrow> Inl e
            | Inr r \<Rightarrow> Inr (ed # r))
      else (case call ed of
              Inl e \<Rightarrow> Inl e
            | Inr c \<Rightarrow>
                (case secondPassElems isAsync call es of
                   Inl e \<Rightarrow> Inl e
                 | Inr r \<Rightarrow> Inr (ed\<lparr>e_content := Some c\<rparr> # r))))"

fun secondPass ::
  "(string \<Rightarrow> bool) \<Rightarrow> (int \<Rightarrow> 'a elem_data \<Rightarrow> py_error + content)
     \<Rightarrow> (int \<times> 'a elem_data list) list \<Rightarrow> py_error + (int \<times> 'a elem_data list) list" where
  "secondPass isAsync call [] = Inr []"
| "secondPass isAsync call ((num, es) # meta) =
     (case secondPassElems isAsync (call num) es of
        Inl e \<Rightarrow> Inl e
      | Inr es' \<Rightarrow>
          (case secondPass isAsync call meta of
             Inl e \<Rightarrow> Inl e
           | Inr meta' \<Rightarrow> Inr ((num, es') # meta')))"

text \<open>
  The third pass. The inner loop looks for the first entry of \<open>elementsMetadata\<close> with
  the number of the future; \<open>hasPage\<close> tells whether there is one, and \<open>writeContent\<close>
  is the assignment \<open>slideElements[elemIndex]['content'] = \<dots>\<close> in that entry, which
  raises \<open>IndexError\<close> for an index out of range. \<open>future.result()\<close> is evaluated only
  when an entry was found, and before the assignment.
\<close>

definition hasPage :: "int \<Rightarrow> (int \<times> 'a elem_data list) list \<Rightarrow> bool" where
  "hasPage num meta = list_ex (\<lambda>p. fst p = num) meta"

fun writeContent ::
  "int \<Rightarrow> nat \<Rightarrow> content \<Rightarrow> (int \<times> 'a elem_data list) list
     \<Rightarrow> py_error + (int \<times> 'a elem_data list) list" where
  "writeContent num idx c [] = Inr []"
| "writeContent num idx c ((n, es) # meta) =
     (if n = num
      then (if idx < length es
            then Inr ((n, es[idx := (es ! idx)\<lparr>e_content := Some c\<rparr>]) # meta)
            else Inl IndexError)
      else (case writeContent num idx c meta of
              Inl e \<Rightarrow> Inl e
            | Inr meta' \<Rightarrow> Inr ((n, es) # meta')))"

fun joinFutures ::
  "(nat \<Rightarrow> (py_error + content) option) \<Rightarrow> (int \<times> nat \<times> nat) list
     \<Rightarrow> (int \<times> 'a elem_data list) list
     \<Rightarrow> (py_error + (int \<times> 'a elem_data list) list) option" where
  "joinFutures res [] meta = Some (Inr meta)"
| "joinFutures res ((num, idx, k) # futs) meta =
     (if hasPage num meta
      then (case res k of
              None \<Rightarrow> None
            | Some (Inl e) \<Rightarrow> Some (Inl e)
            | Some (Inr c) \<Rightarrow>
                (case writeContent num idx c meta of
                   Inl e \<Rightarrow> Some (Inl e)
                 | Inr meta' \<Rightarrow> joinFutures res futs meta'))
      else joinFutures res futs meta)"

text \<open>The three passes in a row; \<open>None\<close> when the third pass waits for ever.\<close>

definition threePasses ::
  "(string \<Rightarrow> bool) \<Rightarrow> (int \<Rightarrow> 'a elem_data \<Rightarrow> py_error + content)
     \<Rightarrow> (nat \<Rightarrow> (py_error + content) option)
     \<Rightarrow> (py_error + int \<times> 'a elem_data option list) list
     \<Rightarrow> (py_error + (int \<times> 'a elem_data list) list) option" where
  "threePasses isAsync call res pages =
     (case firstPass isAsync 0 pages of
        Inl e \<Rightarrow> Some (Inl e)
      | Inr (meta, futs, n) \<Rightarrow>
          (case secondPass isAsync call meta of
             Inl e \<Rightarrow> Some (Inl e)
           | Inr meta2 \<Rightarrow> joinFutures res futs meta2))"

subsection \<open>\<open>extractFromPptx\<close>\<close>

record pptx_elem =
  classified_type :: string
  position :: "int \<times> int"
  elem_size :: "int \<times> int"

record slide_data =
  slide_number :: int
  elements :: "pptx_elem list"

text \<open>\<open>_findShape\<close>: the first shape of the slide at the position \<open>(top, left)\<close>.\<close>

fun findShape :: "shape list \<Rightarrow> int \<times> int \<Rightarrow> shape option" where
  "findShape [] pos = None"
| "findShape (sh # shapes) pos =
     (if sh_top sh = fst pos \<and> sh_left sh = snd pos then Some sh else findShape shapes pos)"

record pptx_info =
  i_position :: "int \<times> int"
  i_size :: "int \<times> int"
  i_shape :: shape

text \<open>The \<open>elemData\<close> of an element, or \<open>None\<close> when no shape is found.\<close>

definition mkPptx :: "shape list \<Rightarrow> pptx_elem \<Rightarrow> pptx_info elem_data option" where
  "mkPptx slide elem =
     (case findShape slide (position elem) of
        None \<Rightarrow> None
      | Some sh \<Rightarrow>
          Some \<lparr>e_type = classified_type elem,
                e_info = \<lparr>i_position = position elem, i_size = elem_size elem, i_shape = sh\<rparr>,
                e_content = None,
                e_handler = getHandler (classified_type elem)\<rparr>)"

definition openSlide :: "env \<Rightarrow> slide_data \<Rightarrow> py_error + int \<times> pptx_info elem_data option list" where
  "openSlide e sd =
     (case slideAt e (slide_number sd - 1) of
        Inl x \<Rightarrow> Inl x
      | Inr slide \<Rightarrow> Inr (slide_number sd, map (mkPptx slide) (elements sd)))"

text \<open>The call of the second pass, with its \<open>except AttributeError\<close>.\<close>

definition callPptx :: "env \<Rightarrow> pystr \<Rightarrow> int \<Rightarrow> pptx_info elem_data \<Rightarrow> py_error + content" where
  "callPptx e filePath slideNum ed =
     (case handlePptxOf e (e_handler ed) (i_shape (e_info ed)) filePath slideNum of
        Inl AttributeError \<Rightarrow> handle (e_handler ed)
      | r \<Rightarrow> r)"

record pptx_out =
  o_type :: string
  o_position :: "int \<times> int"
  o_size :: "int \<times> int"
  o_content :: "content option"

definition outPptx :: "pptx_info elem_data \<Rightarrow> pptx_out" where
  "outPptx ed =
     \<lparr>o_type = e_type ed, o_position = i_position (e_info ed), o_size = i_size (e_info ed),
      o_content = e_content ed\<rparr>"

definition isImage :: "string \<Rightarrow> bool" where
  "isImage t = (t = ''image'')"

definition extractFromPptx ::
  "env \<Rightarrow> nat list \<Rightarrow> pystr \<Rightarrow> slide_data list
     \<Rightarrow> (py_error + (int \<times> pptx_out list) list) option" where
  "extractFromPptx e order filePath analyzedElements =
     (case threePasses isImage (callPptx e filePath) (futureResult e order)
             (map (openSlide e) analyzedElements) of
        None \<Rightarrow> None
      | Some (Inl x) \<Rightarrow> Some (Inl x)
      | Some (Inr meta) \<Rightarrow> Some (Inr (map (\<lambda>(num, es). (num, map outPptx es)) meta)))"

subsection \<open>\<open>extractFromPdf\<close>\<close>

record page_data =
  page_number :: int
  detections :: "detection list"

text \<open>\<open>int(x)\<close> of a float: truncation towards 0.\<close>

definition pyInt :: "real \<Rightarrow> int" where
  "pyInt x = (if 0 \<le> x then \<lfloor>x\<rfloor> else \<lceil>x\<rceil>)"

text \<open>The scale between detection and page coordinates; the divisions can raise.\<close>

definition pageScale :: "real \<times> real \<Rightarrow> real \<Rightarrow> py_error + real" where
  "pageScale rect dpi =
     (let detectionW = pyInt (fst rect * dpi / 72);
          detectionH = pyInt (snd rect * dpi / 72)
      in if detectionW = 0 \<or> detectionH = 0 then Inl ZeroDivisionError
         else Inr ((fst rect / real_of_int detectionW + snd rect / real_of_int detectionH) / 2))"

record pdf_info =
  i_bbox :: bbox
  i_confidence :: real
  i_page :: int
  i_scale :: real

definition mkPdf :: "int \<Rightarrow> real \<Rightarrow> detection \<Rightarrow> pdf_info elem_data option" where
  "mkPdf pageNum scale det =
     Some \<lparr>e_type = class_name det,
           e_info = \<lparr>i_bbox = bbox det, i_confidence = conf det, i_page = pageNum,
                     i_scale = scale\<rparr>,
           e_content = None,
           e_handler = getHandler (class_name det)\<rparr>"

definition openPage :: "env \<Rightarrow> real \<Rightarrow> page_data \<Rightarrow> py_error + int \<times> pdf_info elem_data option list" where
  "openPage e dpi pd =
     (case pageAt e (page_number pd - 1) of
        Inl x \<Rightarrow> Inl x
      | Inr rect \<Rightarrow>
          (case pageScale rect dpi of
             Inl x \<Rightarrow> Inl x
           | Inr scale \<Rightarrow>
               Inr (page_number pd, map (mkPdf (page_number pd) scale) (detections pd))))"

definition callPdf :: "env \<Rightarrow> int \<Rightarrow> pdf_info elem_data \<Rightarrow> py_error + content" where
  "callPdf e pageNum ed =
     (case handlePdfOf e (e_handler ed) (i_page (e_info ed)) (i_bbox (e_info ed))
             (i_scale (e_info ed)) of
        Inl AttributeError \<Rightarrow> handle (e_handler ed)
      | r \<Rightarrow> r)"

record pdf_out =
  p_type :: string
  p_bbox :: bbox
  p_confidence :: real
  p_content :: "content option"

definition outPdf :: "pdf_info elem_data \<Rightarrow> pdf_out" where
  "outPdf ed =
     \<lparr>p_type = e_type ed, p_bbox = i_bbox (e_info ed), p_confidence = i_confidence (e_info ed),
      p_content = e_content ed\<rparr>"

definition isImageOrFigure :: "string \<Rightarrow> bool" where
  "isImageOrFigure t = (t = ''image'' \<or> t = ''figure'')"

definition extractFromPdf ::
  "env \<Rightarrow> nat list \<Rightarrow> real \<Rightarrow> page_data list
     \<Rightarrow> (py_error + (int \<times> pdf_out list) list) option" where
  "extractFromPdf e order dpi analyzedElements =
     (case threePasses isImageOrFigure (callPdf e) (futureResult e order)
             (map (openPage e dpi) analyzedElements) of
        None \<Rightarrow> None
      | Some (Inl x) \<Rightarrow> Some (Inl x)
      | Some (Inr meta) \<Rightarrow> Some (Inr (map (\<lambda>(num, es). (num, map outPdf es)) meta)))"

subsection \<open>The reference: one pass in document order\<close>

text \<open>
  Every element is given its own content where it stands: the result of its own future
  when it is submitted, the return of its own handler otherwise. The futures are
  numbered in document order.
\<close>

fun contentOf :: "py_error + content \<Rightarrow> content option" where
  "contentOf (Inl e) = None"
| "contentOf (Inr c) = Some c"

fun directElems ::
  "(string \<Rightarrow> bool) \<Rightarrow> ('a elem_data \<Rightarrow> py_error + content) \<Rightarrow> (nat \<Rightarrow> py_error + content)
     \<Rightarrow> nat \<Rightarrow> 'a elem_data option list \<Rightarrow> 'a elem_data list \<times> nat" where
  "directElems isAsync call out fid [] = ([], fid)"
| "directElems isAsync call out fid (None # xs) = directElems isAsync call out fid xs"
| "directElems isAsync call out fid (Some ed # xs) =
     (if isAsync (e_type ed)
      then (case directElems isAsync call out (Suc fid) xs of
              (es, n) \<Rightarrow> (ed\<lparr>e_content := contentOf (out fid)\<rparr> # es, n))
      else (case directElems isAsync call out fid xs of
              (es, n) \<Rightarrow> (ed\<lparr>e_content := contentOf (call ed)\<rparr> # es, n)))"

fun direct ::
  "(string \<Rightarrow> bool) \<Rightarrow> (int \<Rightarrow> 'a elem_data \<Rightarrow> py_error + content) \<Rightarrow> (nat \<Rightarrow> py_error + content)
     \<Rightarrow> nat \<Rightarrow> (py_error + int \<times> 'a elem_data option list) list
     \<Rightarrow> (int \<times> 'a elem_data list) list" where
  "direct isAsync call out fid [] = []"
| "direct isAsync call out fid (Inl e # ps) = direct isAsync call out fid ps"
| "direct isAsync call out fid (Inr (num, xs) # ps) =
     (case directElems isAsync (call num) out fid xs of
        (es, n) \<Rightarrow> (num, es) # direct isAsync call out n ps)"

definition directPptx :: "env \<Rightarrow> pystr \<Rightarrow> slide_data list \<Rightarrow> (int \<times> pptx_out list) list" where
  "directPptx e filePath analyzedElements =
     map (\<lambda>(num, es). (num, map outPptx es))
       (direct isImage (callPptx e filePath) (future_outcome e) 0
          (map (openSlide e) analyzedElements))"

definition directPdf :: "env \<Rightarrow> real \<Rightarrow> page_data list \<Rightarrow> (int \<times> pdf_out list) list" where
  "directPdf e dpi analyzedElements =
     map (\<lambda>(num, es). (num, map outPdf es))
       (direct isImageOrFigure (callPdf e) (future_outcome e) 0
          (map (openPage e dpi) analyzedElements))"

text \<open>The number of analyzed elements: no future has a greater number.\<close>

definition pptxCount :: "slide_data list \<Rightarrow> nat" where
  "pptxCount analyzedElements = sum_list (map (\<lambda>sd. length (elements sd)) analyzedElements)"

definition pdfCount :: "page_data list \<Rightarrow> nat" where
  "pdfCount analyzedElements = sum_list (map (\<lambda>pd. length (detections pd)) analyzedElements)"

text \<open>
  For the claim on unmatched elements: whether an element of a slide has a shape, and
  the analyzed slides without the elements that have none.
\<close>

definition matched :: "env \<Rightarrow> slide_data \<Rightarrow> pptx_elem \<Rightarrow> bool" where
  "matched e sd elem =
     (case slideAt e (slide_number sd - 1) of
        Inl x \<Rightarrow> True
      | Inr slide \<Rightarrow> findShape slide (position elem) \<noteq> None)"

definition dropUnmatched :: "env \<Rightarrow> slide_data \<Rightarrow> slide_data" where
  "dropUnmatched e sd = sd\<lparr>elements := filter (matched e sd) (elements sd)\<rparr>"

(*DEFS-END*)

section \<open>Properties of duplicate suppression\<close>

lemma computeIou_sym: "computeIou a b = computeIou b a"
proof -
  obtain a1 a2 a3 a4 where a: "a = (a1, a2, a3, a4)" by (cases a) auto
  obtain b1 b2 b3 b4 where b: "b = (b1, b2, b3, b4)" by (cases b) auto
  show ?thesis unfolding a b
    by (simp add: Let_def max.commute min.commute add.commute)
qed

lemma iouWithin_sym: "iouWithin t a b = iouWithin t b a"
  by (auto simp: iouWithin_def computeIou_sym[of "bbox a" "bbox b"])

lemma nonOverlapping_sorted_wrt: "nonOverlapping t ds = sorted_wrt (iouWithin t) ds"
  by (induction ds) (auto simp: list_all_iff)

text \<open>What the comprehension keeps, when it raises nothing.\<close>

lemma keepOthers_filter:
  "keepOthers best t ds = Inr r \<Longrightarrow> r = filter (\<lambda>d. iouWithin t d best) ds"
proof (induction ds arbitrary: r)
  case Nil
  then show ?case by simp
next
  case (Cons d ds)
  from Cons.prems obtain r' where r': "keepOthers best t ds = Inr r'"
    by (auto split: if_splits sum.splits)
  have ih: "r' = filter (\<lambda>d. iouWithin t d best) ds" using Cons.IH[OF r'] .
  show ?case
  proof (cases "class_name d = class_name best")
    case False
    then show ?thesis using Cons.prems r' ih by (simp add: iouWithin_def)
  next
    case True
    with Cons.prems obtain v where v: "computeIou (bbox d) (bbox best) = Inr v"
      by (auto split: sum.splits)
    show ?thesis using Cons.prems r' True v unfolding ih
      by (simp add: iouWithin_def)
  qed
qed

lemma keepOthers_all:
  "\<forall>d\<in>set ds. iouWithin t d best \<Longrightarrow> keepOthers best t ds = Inr ds"
  by (induction ds) (auto simp: iouWithin_def split: if_splits sum.splits)

text \<open>
  The loop invariant: what the loop appends to \<open>keep\<close> comes from the remaining
  detections and is pairwise within the threshold.
\<close>

lemma nmsLoop_inv:
  "nmsLoop ds t keep = Inr out \<Longrightarrow>
     \<exists>out'. out = keep @ out' \<and> set out' \<subseteq> set ds \<and> sorted_wrt (iouWithin t) out'"
proof (induction ds t keep arbitrary: out rule: nmsLoop.induct)
  case (1 t keep)
  then show ?case by simp
next
  case (2 best rest t keep)
  from "2.prems" obtain rest' where r: "keepOthers best t rest = Inr rest'"
    and l: "nmsLoop rest' t (keep @ [best]) = Inr out"
    by (auto split: sum.splits)
  from "2.IH"[OF r l] obtain o' where o: "out = (keep @ [best]) @ o'"
    "set o' \<subseteq> set rest'" "sorted_wrt (iouWithin t) o'" by blast
  have f: "rest' = filter (\<lambda>d. iouWithin t d best) rest" using keepOthers_filter[OF r] .
  have "\<forall>d\<in>set o'. iouWithin t best d" using o(2) f by (auto simp: iouWithin_sym[of t best])
  moreover have "set o' \<subseteq> set rest" using o(2) f by auto
  ultimately show ?case using o by (intro exI[of _ "best # o'"]) auto
qed

lemma nmsLoop_all:
  "sorted_wrt (iouWithin t) ds \<Longrightarrow> nmsLoop ds t keep = Inr (keep @ ds)"
proof (induction ds arbitrary: keep)
  case Nil then show ?case by simp
next
  case (Cons d ds)
  then have "keepOthers d t ds = Inr ds"
    by (intro keepOthers_all) (auto simp: iouWithin_sym[of t d])
  then show ?case using Cons by simp
qed

lemma sorted_wrt_insort_key:
  assumes "\<And>a b. P a b = P b a" "sorted_wrt P xs" "\<forall>y\<in>set xs. P x y"
  shows "sorted_wrt P (insort_key f x xs)"
  using assms(2,3) by (induction xs) (auto simp: set_insort_key assms(1)[of _ x])

lemma sorted_wrt_sort_key:
  assumes "\<And>a b. P a b = P b a" "sorted_wrt P xs"
  shows "sorted_wrt P (sort_key f xs)"
  using assms(2) by (induction xs) (auto intro!: sorted_wrt_insort_key assms(1))

subsection \<open>The value of \<open>computeIou\<close>\<close>

text \<open>Whenever \<open>computeIou\<close> returns, the value lies between 0 and 1.\<close>

lemma computeIou_range: "computeIou a b = Inr v \<Longrightarrow> 0 \<le> v \<and> v \<le> 1"
proof -
  assume h: "computeIou a b = Inr v"
  obtain a1 a2 a3 a4 where a: "a = (a1, a2, a3, a4)" by (cases a) auto
  obtain b1 b2 b3 b4 where b: "b = (b1, b2, b3, b4)" by (cases b) auto
  define w where "w = min a3 b3 - max a1 b1"
  define h' where "h' = min a4 b4 - max a2 b2"
  show ?thesis
  proof (cases "min a3 b3 < max a1 b1 \<or> min a4 b4 < max a2 b2")
    case True
    then show ?thesis using h unfolding a b by (auto simp: Let_def)
  next
    case False
    then have w0: "0 \<le> w" and h0: "0 \<le> h'" by (auto simp: w_def h'_def)
    have wa: "w \<le> a3 - a1" "w \<le> b3 - b1" by (auto simp: w_def)
    have ha: "h' \<le> a4 - a2" "h' \<le> b4 - b2" by (auto simp: h'_def)
    have i0: "0 \<le> w * h'" using w0 h0 by simp
    have ia: "w * h' \<le> (a3 - a1) * (a4 - a2)" using wa(1) ha(1) w0 h0 by (intro mult_mono) auto
    have ib: "w * h' \<le> (b3 - b1) * (b4 - b2)" using wa(2) ha(2) w0 h0 by (intro mult_mono) auto
    define u where "u = (a3 - a1) * (a4 - a2) + (b3 - b1) * (b4 - b2) - w * h'"
    have un: "u \<noteq> 0" and v: "v = w * h' / u"
      using h False unfolding a b u_def w_def h'_def by (auto simp: Let_def split: if_splits)
    have "w * h' \<le> u" unfolding u_def using ia ib i0 by linarith
    then have "0 < u" using i0 un by linarith
    then show ?thesis using i0 \<open>w * h' \<le> u\<close> by (simp add: v)
  qed
qed

text \<open>An inverted box never reaches the division: the result is 0.\<close>

lemma computeIou_inverted: "inverted a \<or> inverted b \<Longrightarrow> computeIou a b = Inr 0"
proof -
  assume h: "inverted a \<or> inverted b"
  obtain a1 a2 a3 a4 where a: "a = (a1, a2, a3, a4)" by (cases a) auto
  obtain b1 b2 b3 b4 where b: "b = (b1, b2, b3, b4)" by (cases b) auto
  show ?thesis using h unfolding a b inverted_def by (auto simp: Let_def)
qed

text \<open>A box of positive area has a defined IoU with every box.\<close>

lemma computeIou_positive_area:
  assumes "\<not> inverted a" "0 < boxArea a"
  shows "\<exists>v. computeIou a b = Inr v"
proof -
  obtain a1 a2 a3 a4 where a: "a = (a1, a2, a3, a4)" by (cases a) auto
  obtain b1 b2 b3 b4 where b: "b = (b1, b2, b3, b4)" by (cases b) auto
  define w where "w = min a3 b3 - max a1 b1"
  define h' where "h' = min a4 b4 - max a2 b2"
  show ?thesis
  proof (cases "min a3 b3 < max a1 b1 \<or> min a4 b4 < max a2 b2")
    case True
    then show ?thesis unfolding a b by (auto simp: Let_def)
  next
    case False
    then have w0: "0 \<le> w" and h0: "0 \<le> h'" by (auto simp: w_def h'_def)
    have wa: "w \<le> b3 - b1" by (auto simp: w_def)
    have ha: "h' \<le> b4 - b2" by (auto simp: h'_def)
    have ib: "w * h' \<le> (b3 - b1) * (b4 - b2)" using wa ha w0 h0 by (intro mult_mono) auto
    have "0 < (a3 - a1) * (a4 - a2)" using assms(2) by (simp add: a boxArea_def)
    then have "(a3 - a1) * (a4 - a2) + (b3 - b1) * (b4 - b2) - w * h' \<noteq> 0" using ib by linarith
    then show ?thesis using False unfolding a b w_def h'_def by (auto simp: Let_def)
  qed
qed

text \<open>
  Claim C3. \<open>computeIou\<close> is to return a defined, non-negative value for every pair of
  boxes and never raise. It does so for inverted boxes (\<open>computeIou_inverted\<close>) and its
  values are never negative (\<open>computeIou_range\<close>), but for two coincident boxes of zero
  area the intersection passes the overlap test, both areas and the intersection are 0,
  and the division raises \<open>ZeroDivisionError\<close>.
\<close>

theorem computeIou_coincident_degenerate_raises:
  "computeIou (0, 0, 0, 0) (0, 0, 0, 0) = Inl ZeroDivisionError"
  by simp

subsection \<open>The output of \<open>removeDuplicates\<close>\<close>

text \<open>On boxes of positive area, \<open>removeDuplicates\<close> returns a list.\<close>

lemma keepOthers_total:
  "\<forall>d\<in>set ds. \<not> inverted (bbox d) \<and> 0 < boxArea (bbox d) \<Longrightarrow> \<exists>r. keepOthers best t ds = Inr r"
proof (induction ds)
  case Nil then show ?case by simp
next
  case (Cons d ds)
  then obtain r where r: "keepOthers best t ds = Inr r" by auto
  from Cons.prems obtain v where v: "computeIou (bbox d) (bbox best) = Inr v"
    using computeIou_positive_area[of "bbox d" "bbox best"] by auto
  show ?case using r v by simp
qed

lemma nmsLoop_total:
  "\<forall>d\<in>set ds. \<not> inverted (bbox d) \<and> 0 < boxArea (bbox d) \<Longrightarrow> \<exists>out. nmsLoop ds t keep = Inr out"
proof (induction ds t keep rule: nmsLoop.induct)
  case (1 t keep) then show ?case by simp
next
  case (2 best rest t keep)
  from "2.prems" obtain r where r: "keepOthers best t rest = Inr r"
    using keepOthers_total[of rest best t] by auto
  have "set r \<subseteq> set rest" using keepOthers_filter[OF r] by auto
  with "2.prems" have "\<forall>d\<in>set r. \<not> inverted (bbox d) \<and> 0 < boxArea (bbox d)" by auto
  from "2.IH"[OF r this] show ?case using r by simp
qed

lemma removeDuplicates_total:
  "\<forall>d\<in>set ds. \<not> inverted (bbox d) \<and> 0 < boxArea (bbox d) \<Longrightarrow> \<exists>out. removeDuplicates ds t = Inr out"
  using nmsLoop_total[of "sortByConfDesc ds" t "[]"]
  by (auto simp: removeDuplicates_def sortByConfDesc_def)

text \<open>
  Claim C2. For every detection list and every threshold, any two detections kept by
  \<open>removeDuplicates\<close> that share a class label have an IoU that is defined and at most the
  threshold. Nothing is said of two kept detections of different classes.
\<close>

theorem removeDuplicates_same_class_iou_le:
  assumes "removeDuplicates ds t = Inr keep" "i < j" "j < length keep"
    "class_name (keep ! i) = class_name (keep ! j)"
  shows "\<exists>v. computeIou (bbox (keep ! i)) (bbox (keep ! j)) = Inr v \<and> v \<le> t"
proof -
  have "sorted_wrt (iouWithin t) keep"
  proof (cases "ds = []")
    case True then show ?thesis using assms(1) by (simp add: removeDuplicates_def)
  next
    case False
    then have "nmsLoop (sortByConfDesc ds) t [] = Inr keep"
      using assms(1) by (simp add: removeDuplicates_def)
    from nmsLoop_inv[OF this] show ?thesis by auto
  qed
  then have "iouWithin t (keep ! i) (keep ! j)"
    using assms(2,3) by (simp add: sorted_wrt_iff_nth_less)
  then show ?thesis using assms(4) by (auto simp: iouWithin_def split: sum.splits)
qed

theorem removeDuplicates_same_class_iou_le_witness:
  "removeDuplicates [exA, exB] (7/10) = Inr [exA, exB]
   \<and> (\<exists>v. computeIou (bbox exA) (bbox exB) = Inr v \<and> v \<le> 7/10)"
proof -
  have h: "removeDuplicates [exA, exB] (7/10) = Inr [exA, exB]"
    by (simp add: removeDuplicates_def sortByConfDesc_def exA_def exB_def)
  have c: "class_name ([exA, exB] ! 0) = class_name ([exA, exB] ! 1)"
    by (simp add: exA_def exB_def)
  from removeDuplicates_same_class_iou_le[OF h _ _ c] h show ?thesis by simp
qed

text \<open>
  Claim C9, as amended. For every detection list in which every two same-class
  detections have a defined IoU that is at most the threshold, \<open>removeDuplicates\<close> removes
  nothing: it returns the same detections in stable descending order of confidence,
  which is the input order when the confidences of the input do not increase.
\<close>

theorem removeDuplicates_nonOverlapping_sorted:
  assumes "nonOverlapping t ds"
  shows "removeDuplicates ds t = Inr (sortByConfDesc ds)
         \<and> mset (sortByConfDesc ds) = mset ds
         \<and> (sorted (map (\<lambda>d. - conf d) ds) \<longrightarrow> sortByConfDesc ds = ds)"
proof -
  have "removeDuplicates ds t = Inr (sortByConfDesc ds)"
  proof (cases "ds = []")
    case True then show ?thesis by (simp add: removeDuplicates_def sortByConfDesc_def)
  next
    case False
    have "sorted_wrt (iouWithin t) (sortByConfDesc ds)"
      unfolding sortByConfDesc_def using assms
      by (intro sorted_wrt_sort_key iouWithin_sym) (simp add: nonOverlapping_sorted_wrt)
    from nmsLoop_all[OF this, of "[]"] show ?thesis using False
      by (simp add: removeDuplicates_def)
  qed
  then show ?thesis by (simp add: sortByConfDesc_def sort_key_id_if_sorted)
qed

theorem removeDuplicates_nonOverlapping_sorted_witness:
  "nonOverlapping (7/10) [exA, exC] \<and> removeDuplicates [exA, exC] (7/10) = Inr [exC, exA]"
proof -
  have h: "nonOverlapping (7/10) [exA, exC]"
    by (simp add: iouWithin_def exA_def exC_def)
  have s: "sortByConfDesc [exA, exC] = [exC, exA]"
    by (simp add: sortByConfDesc_def exA_def exC_def)
  from removeDuplicates_nonOverlapping_sorted[OF h] h s show ?thesis by simp
qed

text \<open>
  Claim C9 as stated fails: the two detections below do not overlap, and the output
  lists them in the other order.
\<close>

theorem removeDuplicates_nonOverlapping_reordered:
  "nonOverlapping (7/10) [exA, exC] \<and> removeDuplicates [exA, exC] (7/10) \<noteq> Inr [exA, exC]"
  by (simp add: removeDuplicates_def sortByConfDesc_def iouWithin_def exA_def exC_def)

section \<open>Properties of table normalisation\<close>

text \<open>The two loops of \<open>_normalizeData\<close> in closed form.\<close>

lemma cleanLoop_eq:
  "cleanLoop rs m cl = (fold max (map rowLen rs) m, cl @ map cleanRow rs)"
proof (induction rs arbitrary: m cl)
  case Nil then show ?case by simp
next
  case (Cons r rs)
  have l: "length (cleanRow r) = rowLen r" by (cases r) auto
  show ?case by (simp add: Cons Let_def l max_def)
qed

lemma fold_max_Max: "fold max xs (m::nat) = Max (insert m (set xs))"
proof (induction xs arbitrary: m)
  case Nil then show ?case by simp
next
  case (Cons x xs)
  have "Max (insert (max x m) (set xs)) = Max (insert m (insert x (set xs)))"
  proof -
    have "Max (insert m (insert x (set xs))) = max m (Max (insert x (set xs)))"
      by (rule Max_insert) auto
    also have "\<dots> = max m (max x (Max (insert x (set xs))))" by simp
    finally have a: "Max (insert m (insert x (set xs))) = max (max x m) (Max (insert x (set xs)))"
      by (simp add: max.assoc max.commute)
    show ?thesis
    proof (cases "set xs = {}")
      case True then show ?thesis by (simp add: max.commute)
    next
      case False
      then show ?thesis by (simp add: max.assoc max.commute max.left_commute)
    qed
  qed
  then show ?case by (simp add: Cons)
qed

lemma normalizeData_eq:
  "normalizeData data = map (\<lambda>r. padRow (maxRowLen data) (cleanRow r)) data"
proof (cases "data = []")
  case True then show ?thesis by (simp add: normalizeData_def)
next
  case False
  have m: "fold max (map rowLen data) 0 = maxRowLen data"
    by (simp add: fold_max_Max maxRowLen_def)
  show ?thesis
  proof (cases "maxRowLen data = 0")
    case True
    then show ?thesis using False
      by (simp add: normalizeData_def cleanLoop_eq m padRow_def)
  next
    case F: False
    then show ?thesis using False
      by (simp add: normalizeData_def cleanLoop_eq m)
  qed
qed

lemma rowLen_le: "r \<in> set data \<Longrightarrow> rowLen r \<le> maxRowLen data"
  by (simp add: maxRowLen_def)

lemma length_cleanRow: "length (cleanRow r) = rowLen r" by (cases r) auto

lemma length_padRow: "r \<in> set data \<Longrightarrow> length (padRow (maxRowLen data) (cleanRow r)) = maxRowLen data"
  using rowLen_le[of r data] by (simp add: padRow_def length_cleanRow)

lemma columns_eq: "fold max (map length (normalizeData data)) 0 = maxRowLen data"
proof (cases "data = []")
  case True then show ?thesis by (simp add: normalizeData_def maxRowLen_def)
next
  case False
  from False obtain x xs where d: "data = x # xs" by (cases data) auto
  have "length ` (\<lambda>r. padRow (maxRowLen data) (cleanRow r)) ` set data = {maxRowLen data}"
    using d by (auto simp: length_padRow)
  then have "set (map length (normalizeData data)) = {maxRowLen data}"
    by (simp add: normalizeData_eq image_image)
  then show ?thesis by (simp add: fold_max_Max)
qed

text \<open>
  Claim C8. For every list of rows the result of \<open>_buildResult\<close> has as many rows as
  the input, a column count equal to the greatest row length, and as row \<open>i\<close> the cells
  of input row \<open>i\<close> (each string cell trimmed, each other cell replaced by the empty
  string) followed by empty strings up to that width. For the rows \<open>[[a,b,c],[d]]\<close> this
  gives 2 rows, 3 columns and the grid \<open>[[a,b,c],[d,"",""]]\<close> of the trimmed cells.
\<close>

theorem buildResult_pads_rows:
  "t_rows (buildResult data src) = length data
   \<and> t_columns (buildResult data src) = maxRowLen data
   \<and> length (t_data (buildResult data src)) = length data
   \<and> (\<forall>i<length data.
         t_data (buildResult data src) ! i
           = cleanRow (data ! i) @ replicate (maxRowLen data - rowLen (data ! i)) []
         \<and> length (t_data (buildResult data src) ! i) = maxRowLen data)
   \<and> t_rows (buildResult [RList [CStr a, CStr b, CStr c], RList [CStr d]] src) = 2
   \<and> t_columns (buildResult [RList [CStr a, CStr b, CStr c], RList [CStr d]] src) = 3
   \<and> t_data (buildResult [RList [CStr a, CStr b, CStr c], RList [CStr d]] src)
       = [[strip a, strip b, strip c], [strip d, [], []]]"
proof -
  have ex: "maxRowLen [RList [CStr a, CStr b, CStr c], RList [CStr d]] = 3"
    by (simp add: maxRowLen_def)
  have 1: "t_data (buildResult data src) = normalizeData data"
    and 2: "t_rows (buildResult data src) = length (normalizeData data)"
    and 3: "t_columns (buildResult data src) = maxRowLen data" for data
    by (simp_all add: buildResult_def Let_def columns_eq)
  show ?thesis
    unfolding 1 2 3 ex
    by (simp add: normalizeData_eq ex padRow_def length_cleanRow rowLen_le eval_nat_numeral)
qed

theorem buildResult_pads_rows_witness:
  "t_rows (buildResult exRows ''pdfplumber'') = 2
   \<and> t_columns (buildResult exRows ''pdfplumber'') = 3
   \<and> (1::nat) < length exRows
   \<and> t_data (buildResult exRows ''pdfplumber'') ! 1 = [ascii ''d'', [], []]
   \<and> t_data (buildResult exRows ''pdfplumber'')
       = [[ascii ''a'', ascii ''b'', ascii ''c''], [ascii ''d'', [], []]]"
proof -
  have m: "maxRowLen exRows = 3" by (simp add: maxRowLen_def exRows_def)
  have l: "(1::nat) < length exRows" by (simp add: exRows_def)
  have s: "strip (ascii ''a'') = ascii ''a''" "strip (ascii ''b'') = ascii ''b''"
    "strip (ascii ''c'') = ascii ''c''" "strip (ascii ''d'') = ascii ''d''"
    by (simp_all add: strip_def ascii_def py_isspace_def)
  have r: "cleanRow (exRows ! 1) @ replicate (3 - rowLen (exRows ! 1)) [] = [ascii ''d'', [], []]"
    by (simp add: exRows_def s eval_nat_numeral)
  note t = buildResult_pads_rows[of exRows "''pdfplumber''" "ascii ''a''" "ascii ''b''"
      "ascii ''c''" "ascii ''d''", unfolded m]
  from t have "\<forall>i<length exRows. t_data (buildResult exRows ''pdfplumber'') ! i
       = cleanRow (exRows ! i) @ replicate (3 - rowLen (exRows ! i)) []
       \<and> length (t_data (buildResult exRows ''pdfplumber'') ! i) = 3" by blast
  with l r have 1: "t_data (buildResult exRows ''pdfplumber'') ! 1 = [ascii ''d'', [], []]"
    by auto
  from t have 2: "t_rows (buildResult exRows ''pdfplumber'') = length exRows"
    "t_columns (buildResult exRows ''pdfplumber'') = 3" by blast+
  from t have 3: "t_data (buildResult exRows ''pdfplumber'')
       = [[ascii ''a'', ascii ''b'', ascii ''c''], [ascii ''d'', [], []]]"
    unfolding exRows_def s by blast
  show ?thesis using 1 2 3 l by (simp add: exRows_def)
qed

section \<open>Properties of formula extraction\<close>

text \<open>
  The first two layers call the two stubs, so they never return a record:
  \<open>handlePptx\<close> is decided by the text layer and the image layer.
\<close>

lemma layer1_None: "layer1 om = None"
  by (simp add: layer1_def ommlToLatex_def split: option.splits)

lemma layer2a_None: "layer2a om fp n = None"
  by (simp add: layer2a_def extractOmmlFromSlide_def)

lemma handlePptx_layers:
  "handlePptx llm verbose sh n fp =
     (case layer2b llm verbose sh of
        Some r \<Rightarrow> r
      | None \<Rightarrow> (case layer2c llm sh of Some r \<Rightarrow> r | None \<Rightarrow> failedResult))"
  by (simp add: handlePptx_def layer1_None layer2a_None)

lemma layer2b_truthy: "layer2b llm verbose sh = Some r \<Longrightarrow> truthy (latex r) \<and> source r = ''text_llm''"
  by (auto simp: layer2b_def Let_def split: option.splits if_splits)

lemma extractFormula_falsy:
  "\<not> truthy (g_latex (extractFormula c b)) \<Longrightarrow> g_confidence (extractFormula c b) = 0"
  by (auto simp: extractFormula_def Let_def split: llm_reply.splits json.splits if_splits)

lemma heuristic_conf:
  "truthy (g_latex (heuristicGuess t)) \<Longrightarrow>
     g_confidence (heuristicGuess t) = 6/10
     \<and> (\<exists>l. simpleTextToLatex t = Some l \<and> g_latex (heuristicGuess t) = JStr l)"
  by (auto simp: heuristicGuess_def split: option.splits if_splits)

lemma extractFormulaFromText_cases:
  "extractFormulaFromText c t =
     (case aiLatex c t of
        Some l \<Rightarrow> \<lparr>g_latex = l, g_confidence = 9/10\<rparr>
      | None \<Rightarrow> heuristicGuess t)"
  by (simp add: extractFormulaFromText_def aiLatex_def Let_def split: llm_reply.splits json.splits)

text \<open>The handlers on the examples.\<close>

lemma handlePptx_silent_text:
  "handlePptx (Some silentClient) False textShape 0 [] =
    \<lparr>f_type = Some ''formula'', latex = JStr (ascii ''x = 5''), mathml = None, omml = None,
     source = ''text_llm'', confidence = 6/10, error = None\<rparr>"
  by (simp add: handlePptx_layers layer2b_def rawTextOf_def normalizeTextEquation_def
      extractFormulaFromText_def heuristicGuess_def simpleTextToLatex_def strong_def repl_def
      replaceChar_def silentClient_def textShape_def strip_def py_isspace_def ascii_def Let_def)

lemma handlePptx_good_text:
  "handlePptx (Some goodClient) False textShape 0 [] =
    \<lparr>f_type = Some ''formula'', latex = JStr (ascii ''x=5''), mathml = None, omml = None,
     source = ''text_llm'', confidence = 9/10, error = None\<rparr>"
  by (simp add: handlePptx_layers layer2b_def rawTextOf_def normalizeTextEquation_def
      extractFormulaFromText_def dictGet_def
      goodClient_def textShape_def strip_def py_isspace_def ascii_def Let_def)

lemma handlePptx_silent_picture:
  "handlePptx (Some silentClient) False pictureShape 0 [] =
     ocrResult \<lparr>g_latex = JNull, g_confidence = 0\<rparr>"
  by (simp add: handlePptx_layers layer2b_def layer2c_def extractFormula_def dictGet_def
      silentClient_def pictureShape_def Let_def)

lemma handlePptx_no_client:
  "handlePptx None False textShape 0 [] = failedResult"
  by (simp add: handlePptx_layers layer2b_def layer2c_def)

lemma handlePdf_no_client:
  "handlePdf None (Inr []) =
     \<lparr>f_type = None, latex = JNull, mathml = None, omml = None,
      source = ''ocr_no_llm'', confidence = 0, error = None\<rparr>"
  by (simp add: handlePdf_def)

lemma handlePdf_silent:
  "handlePdf (Some silentClient) (Inr []) = ocrResult \<lparr>g_latex = JNull, g_confidence = 0\<rparr>"
  by (simp add: handlePdf_def extractFormula_def dictGet_def silentClient_def Let_def)

text \<open>
  Claim C6, as amended. When no layer yields a non-empty LaTeX or MathML, both handlers
  return a record of confidence 0. \<open>handlePptx\<close> returns the record with null LaTeX,
  source \<open>failed\<close> and an error text when there is no AI client or the shape has no
  image; otherwise the record is that of the image layer, with source \<open>ocr\<close> and error
  \<open>no_latex\<close>. \<open>handlePdf\<close> returns source \<open>pdf_error\<close>, null LaTeX and the text of the
  exception when rendering raises; source \<open>ocr_no_llm\<close>, null LaTeX and no error when
  there is no AI client; source \<open>ocr\<close> and error \<open>no_latex\<close> otherwise.
\<close>

theorem formula_handlers_no_result:
  "(noResult (handlePptx llm verbose sh n fp) \<longrightarrow>
      confidence (handlePptx llm verbose sh n fp) = 0
      \<and> (if llm = None \<or> sh_image sh = None
          then handlePptx llm verbose sh n fp = failedResult
          else source (handlePptx llm verbose sh n fp) = ''ocr''
               \<and> error (handlePptx llm verbose sh n fp) = Some ''no_latex''))
   \<and> (noResult (handlePdf llm render) \<longrightarrow>
      confidence (handlePdf llm render) = 0
      \<and> (case render of
            Inl e \<Rightarrow> source (handlePdf llm render) = ''pdf_error''
                      \<and> latex (handlePdf llm render) = JNull
                      \<and> error (handlePdf llm render) = Some (errStr e)
          | Inr b \<Rightarrow>
              if llm = None
              then source (handlePdf llm render) = ''ocr_no_llm''
                   \<and> latex (handlePdf llm render) = JNull
                   \<and> error (handlePdf llm render) = None
              else source (handlePdf llm render) = ''ocr''
                   \<and> error (handlePdf llm render) = Some ''no_latex''))"
proof -
  have pptx: "noResult (handlePptx llm verbose sh n fp) \<longrightarrow>
      confidence (handlePptx llm verbose sh n fp) = 0
      \<and> (if llm = None \<or> sh_image sh = None
          then handlePptx llm verbose sh n fp = failedResult
          else source (handlePptx llm verbose sh n fp) = ''ocr''
               \<and> error (handlePptx llm verbose sh n fp) = Some ''no_latex'')"
  proof
    assume nr: "noResult (handlePptx llm verbose sh n fp)"
    have b: "layer2b llm verbose sh = None"
    proof (cases "layer2b llm verbose sh")
      case None then show ?thesis .
    next
      case (Some r)
      with nr layer2b_truthy[OF Some] show ?thesis
        by (simp add: handlePptx_layers noResult_def)
    qed
    show "confidence (handlePptx llm verbose sh n fp) = 0
      \<and> (if llm = None \<or> sh_image sh = None
          then handlePptx llm verbose sh n fp = failedResult
          else source (handlePptx llm verbose sh n fp) = ''ocr''
               \<and> error (handlePptx llm verbose sh n fp) = Some ''no_latex'')"
      using nr extractFormula_falsy
      by (auto simp: handlePptx_layers b layer2c_def failedResult_def ocrResult_def noResult_def
               split: option.splits)
  qed
  have pdf: "noResult (handlePdf llm render) \<longrightarrow>
      confidence (handlePdf llm render) = 0
      \<and> (case render of
            Inl e \<Rightarrow> source (handlePdf llm render) = ''pdf_error''
                      \<and> latex (handlePdf llm render) = JNull
                      \<and> error (handlePdf llm render) = Some (errStr e)
          | Inr b \<Rightarrow>
              if llm = None
              then source (handlePdf llm render) = ''ocr_no_llm''
                   \<and> latex (handlePdf llm render) = JNull
                   \<and> error (handlePdf llm render) = None
              else source (handlePdf llm render) = ''ocr''
                   \<and> error (handlePdf llm render) = Some ''no_latex'')"
    using extractFormula_falsy
    by (auto simp: handlePdf_def ocrResult_def noResult_def split: sum.splits option.splits)
  from pptx pdf show ?thesis by blast
qed

theorem formula_handlers_no_result_witness:
  "noResult (handlePptx None False textShape 0 [])
   \<and> handlePptx None False textShape 0 [] = failedResult
   \<and> noResult (handlePdf None (Inr []))
   \<and> source (handlePdf None (Inr [])) = ''ocr_no_llm''
   \<and> error (handlePdf None (Inr [])) = None"
proof -
  have n1: "noResult (handlePptx None False textShape 0 [])"
    by (simp add: handlePptx_no_client failedResult_def noResult_def)
  have n2: "noResult (handlePdf None (Inr []))"
    by (simp add: handlePdf_no_client noResult_def)
  from formula_handlers_no_result[of None False textShape 0 "[]" "Inr []"] n1 n2
  show ?thesis by simp
qed

text \<open>
  Claim C6 as stated fails: without an AI client \<open>handlePdf\<close> returns source
  \<open>ocr_no_llm\<close> and no error, and when the image layer of \<open>handlePptx\<close> runs and finds
  nothing the source is \<open>ocr\<close>.
\<close>

theorem formula_handlers_not_failed:
  "noResult (handlePdf None (Inr []))
   \<and> source (handlePdf None (Inr [])) \<noteq> ''failed''
   \<and> error (handlePdf None (Inr [])) = None
   \<and> noResult (handlePptx (Some silentClient) False pictureShape 0 [])
   \<and> source (handlePptx (Some silentClient) False pictureShape 0 []) \<noteq> ''failed''"
  by (simp add: handlePdf_no_client handlePptx_silent_picture ocrResult_def noResult_def)

text \<open>
  Claim C7, as amended. Whenever \<open>handlePptx\<close> returns a record of source \<open>text_llm\<close>,
  an AI client is available and the shape carries text; the confidence is 0.9 when the
  reply of the client supplies the LaTeX, and 0.6 when it supplies none and the LaTeX
  is that of the built-in conversion \<open>simpleTextToLatex\<close>.
\<close>

theorem handlePptx_text_llm_confidence:
  assumes "source (handlePptx llm verbose sh n fp) = ''text_llm''"
  shows "\<exists>c. llm = Some c \<and> has_text_frame sh \<and> rawTextOf sh \<noteq> []
           \<and> (case aiLatex c (rawTextOf sh) of
                 Some l \<Rightarrow> latex (handlePptx llm verbose sh n fp) = l
                           \<and> confidence (handlePptx llm verbose sh n fp) = 9/10
               | None \<Rightarrow> (\<exists>h. simpleTextToLatex (rawTextOf sh) = Some h
                               \<and> latex (handlePptx llm verbose sh n fp) = JStr h)
                         \<and> confidence (handlePptx llm verbose sh n fp) = 6/10)"
proof -
  have "layer2b llm verbose sh \<noteq> None"
  proof
    assume "layer2b llm verbose sh = None"
    with assms show False
      by (auto simp: handlePptx_layers layer2c_def ocrResult_def failedResult_def split: option.splits)
  qed
  then obtain r where r: "layer2b llm verbose sh = Some r" by auto
  then have h: "handlePptx llm verbose sh n fp = r" by (simp add: handlePptx_layers)
  from r obtain c where c: "llm = Some c" "has_text_frame sh" "rawTextOf sh \<noteq> []"
    "truthy (g_latex (extractFormulaFromText c (rawTextOf sh)))"
    "latex r = g_latex (extractFormulaFromText c (rawTextOf sh))"
    "confidence r = g_confidence (extractFormulaFromText c (rawTextOf sh))"
    by (auto simp: layer2b_def Let_def split: option.splits if_splits)
  show ?thesis
  proof (cases "aiLatex c (rawTextOf sh)")
    case None
    then have e: "extractFormulaFromText c (rawTextOf sh) = heuristicGuess (rawTextOf sh)"
      by (simp add: extractFormulaFromText_cases)
    from c(4) heuristic_conf[of "rawTextOf sh"] show ?thesis
      using c None unfolding h e by auto
  next
    case (Some l)
    then show ?thesis using c unfolding h by (simp add: extractFormulaFromText_cases)
  qed
qed

theorem handlePptx_text_llm_confidence_witness:
  "source (handlePptx (Some goodClient) False textShape 0 []) = ''text_llm''
   \<and> confidence (handlePptx (Some goodClient) False textShape 0 []) = 9/10"
proof -
  have s: "source (handlePptx (Some goodClient) False textShape 0 []) = ''text_llm''"
    by (simp add: handlePptx_good_text)
  have a: "aiLatex goodClient (rawTextOf textShape) = Some (JStr (ascii ''x=5''))"
    by (simp add: aiLatex_def goodClient_def dictGet_def ascii_def)
  from handlePptx_text_llm_confidence[OF s] a s show ?thesis by auto
qed

text \<open>
  Claim C7 as stated fails: the reply below is no JSON, the built-in conversion supplies
  the LaTeX, and the record of source \<open>text_llm\<close> has confidence 0.6.
\<close>

theorem handlePptx_text_llm_heuristic:
  "source (handlePptx (Some silentClient) False textShape 0 []) = ''text_llm''
   \<and> confidence (handlePptx (Some silentClient) False textShape 0 []) \<noteq> 9/10"
  by (simp add: handlePptx_silent_text)

section \<open>Properties of the content cache\<close>

lemma cacheGet_cacheSet: "cacheGet (cacheSet wr h v s) h = Some v"
  by (simp add: cacheGet_def cacheSet_def Let_def)

lemma cache_setAll:
  "cache (setAll ops s) k = (case lastSet ops k of Some v \<Rightarrow> Some v | None \<Rightarrow> cache s k)"
proof (induction ops arbitrary: s)
  case Nil then show ?case by simp
next
  case (Cons op ops)
  obtain wr h v where op: "op = (wr, h, v)" by (cases op) auto
  show ?case unfolding op by (simp add: Cons cacheSet_def Let_def split: option.splits)
qed

lemma file_setAll:
  "ops \<noteq> [] \<Longrightarrow> fst (last ops) = WriteOk \<Longrightarrow> cacheFile (setAll ops s) = JsonFile (cache (setAll ops s))"
proof (induction ops arbitrary: s)
  case Nil then show ?case by simp
next
  case (Cons op ops)
  obtain wr h v where op: "op = (wr, h, v)" by (cases op) auto
  show ?case
  proof (cases "ops = []")
    case True
    with Cons.prems show ?thesis unfolding op
      by (auto simp: cacheSet_def Let_def saveCache_def fun_eq_iff)
  next
    case False
    with Cons show ?thesis unfolding op by simp
  qed
qed

text \<open>
  Claim C5, as amended. After \<open>set(h, v)\<close>, \<open>get(h)\<close> returns \<open>v\<close>, whatever becomes of
  the write. After a sequence of calls of \<open>set\<close> whose last write succeeded, a fresh
  \<open>ImageCache\<close> that reads the file without error answers every \<open>get\<close> as the cache in
  memory does, and returns for each hash the last value set for it.
\<close>

theorem cache_round_trip:
  "cacheGet (cacheSet wr h v s) h = Some v
   \<and> (ops \<noteq> [] \<and> fst (last ops) = WriteOk \<longrightarrow>
        (\<forall>k. cacheGet (newImageCache ReadOk (cacheFile (setAll ops s))) k
               = cacheGet (setAll ops s) k)
        \<and> (\<forall>k x. lastSet ops k = Some x \<longrightarrow>
               cacheGet (newImageCache ReadOk (cacheFile (setAll ops s))) k = Some x))"
proof -
  have "cacheGet (newImageCache ReadOk (cacheFile (setAll ops s))) k = cacheGet (setAll ops s) k"
    if "ops \<noteq> []" "fst (last ops) = WriteOk" for k
    using file_setAll[OF that, of s] by (simp add: cacheGet_def newImageCache_def loadCache_def)
  then show ?thesis
    by (auto simp: cacheGet_cacheSet) (simp add: cacheGet_def cache_setAll)
qed

theorem cache_round_trip_witness:
  "exOps \<noteq> [] \<and> fst (last exOps) = WriteOk
   \<and> cacheGet (newImageCache ReadOk (cacheFile (setAll exOps emptyCache))) [97] = Some [120]
   \<and> cacheGet (newImageCache ReadOk (cacheFile (setAll exOps emptyCache))) [98] = Some [121]"
proof -
  have h: "exOps \<noteq> [] \<and> fst (last exOps) = WriteOk" by (simp add: exOps_def)
  have l: "lastSet exOps [97] = Some [120]" "lastSet exOps [98] = Some [121]"
    by (simp_all add: exOps_def)
  from cache_round_trip[of OpenFails "[97]" "[120]" emptyCache exOps] h l
  show ?thesis by blast
qed

text \<open>
  Claim C5 as stated fails: \<open>_saveCache\<close> swallows the exception of a write that
  fails, and a fresh cache on the file then lacks the entry.
\<close>

theorem cache_reload_after_failed_write:
  "cacheGet (cacheSet OpenFails [97] [120] emptyCache) [97] = Some [120]
   \<and> cacheGet (newImageCache ReadOk (cacheFile (cacheSet OpenFails [97] [120] emptyCache))) [97]
       \<noteq> Some [120]"
  by (simp add: cacheGet_def cacheSet_def newImageCache_def loadCache_def saveCache_def
      emptyCache_def Let_def)

(*THMS-END*)

end
